theory Spec2Isabelle
  imports Main "HOL-Library.Sublist"
begin

section \<open>JavaScript strings\<close>

text \<open>
  A JavaScript string is a sequence of UTF-16 code units. The model keeps the code units
  below 256 (the Latin-1 range), one \<^typ>\<open>char\<close> each; on that range
  \<^verbatim>\<open>trim\<close> and \<^verbatim>\<open>toLowerCase\<close> work unit by unit.

  \<^verbatim>\<open>String.prototype.trim\<close> removes WhiteSpace and LineTerminator code points from
  both ends. Below 256 these are TAB, LF, VT, FF, CR, SP and NBSP.
\<close>

definition isWhiteSpace :: "char \<Rightarrow> bool" where
  "isWhiteSpace c = (of_char c \<in> {9, 10, 11, 12, 13, 32, 160 :: nat})"

definition trim :: "string \<Rightarrow> string" where
  "trim s = rev (dropWhile isWhiteSpace (rev (dropWhile isWhiteSpace s)))"

text \<open>
  \<^verbatim>\<open>toLowerCase\<close>: the upper-case letters below 256 are A to Z (65 to 90) and the
  Latin-1 capitals 192 to 222 without the multiplication sign 215; each is mapped to the
  code unit 32 above it. Bit 5 of all these code units is clear, so adding 32 sets it.
\<close>

definition isUpper :: "char \<Rightarrow> bool" where
  "isUpper c = (let n = (of_char c :: nat) in
     (65 \<le> n \<and> n \<le> 90) \<or> (192 \<le> n \<and> n \<le> 222 \<and> n \<noteq> 215))"

fun plus32 :: "char \<Rightarrow> char" where
  "plus32 (Char b0 b1 b2 b3 b4 b5 b6 b7) = Char b0 b1 b2 b3 b4 True b6 b7"

definition toLowerCase :: "string \<Rightarrow> string" where
  "toLowerCase s = map (\<lambda>c. if isUpper c then plus32 c else c) s"

text \<open>\<^verbatim>\<open>s.includes(p)\<close>: \<open>p\<close> occurs in \<open>s\<close> as a contiguous substring.\<close>

primrec includes_str :: "string \<Rightarrow> string \<Rightarrow> bool" where
  "includes_str [] p = (p = [])"
| "includes_str (c # cs) p = (prefix p (c # cs) \<or> includes_str cs p)"

text \<open>
  \<^verbatim>\<open>s.charAt(0).toUpperCase() + s.slice(1)\<close>. The source applies it to the detected
  language only, one of six ASCII names, so the first letter is treated as ASCII: a to z
  (97 to 122) lose 32, which clears bit 5.
\<close>

definition isLowerAscii :: "char \<Rightarrow> bool" where
  "isLowerAscii c = (let n = (of_char c :: nat) in 97 \<le> n \<and> n \<le> 122)"

fun minus32 :: "char \<Rightarrow> char" where
  "minus32 (Char b0 b1 b2 b3 b4 b5 b6 b7) = Char b0 b1 b2 b3 b4 False b6 b7"

definition capitalise :: "string \<Rightarrow> string" where
  "capitalise s = (case s of [] \<Rightarrow> [] | c # cs \<Rightarrow> (if isLowerAscii c then minus32 c else c) # cs)"

text \<open>\<^verbatim>\<open>xs.join(sep)\<close>\<close>

fun join :: "string \<Rightarrow> string list \<Rightarrow> string" where
  "join sep [] = []"
| "join sep [x] = x"
| "join sep (x # y # ys) = x @ sep @ join sep (y # ys)"

section \<open>Data\<close>

text \<open>
  The types of the page \<^verbatim>\<open>Index\<close> and of the component \<^verbatim>\<open>IssuesPanel\<close>.
  JSON numbers are integers in the model; no property below depends on their arithmetic.

  A value that may be \<^verbatim>\<open>undefined\<close> is an option, \<open>None\<close> for
  \<^verbatim>\<open>undefined\<close>.
\<close>

datatype severity = Critical | Major | Minor

record Issue =
  line :: int
  type :: string
  severity :: severity
  message :: string
  suggestion :: string

record Metrics =
  cyclomaticComplexity :: int
  readabilityScore :: int
  styleAdherence :: int

text \<open>
  The reply of /api/analyze as \<^verbatim>\<open>res.json()\<close> yields it. The declaration
  \<^verbatim>\<open>const data: AnalyzeResponse\<close> is not checked when the page runs, so the parsed
  body may be \<^verbatim>\<open>null\<close>, and an object may lack any of the declared fields: reading
  such a field gives \<^verbatim>\<open>undefined\<close>. A field that is present has its declared type.
\<close>

record AnalyzeResponse =
  codeQualityScore :: "int option"
  issues :: "Issue list option"
  metrics :: "Metrics option"
  language :: "string option"
  analyzedAt :: "string option"
  code :: "string option"

datatype 'a parsed = Null | Object 'a

text \<open>
  \<^verbatim>\<open>type HistoryItem = AnalyzeResponse & { id: string }\<close>. The field is called
  \<open>item_id\<close> because \<open>id\<close> is the identity function of HOL.
\<close>

record HistoryItem = AnalyzeResponse +
  item_id :: string

text \<open>
  The body that \<^verbatim>\<open>handleFix\<close> destructures from the reply of /api/fix, at its
  declared type.
\<close>

record FixResponse =
  fixedCode :: string
  changes :: "string list"
  source :: string
  language :: string

text \<open>
  \<^verbatim>\<open>analysisResult\<close> is declared \<^verbatim>\<open>AnalyzeResponse | null\<close>, and the Load button
  stores a whole history item in it: the value is either a reply as it came from the
  server or a history item with its id.
\<close>

datatype analysis = Fresh AnalyzeResponse | Loaded HistoryItem

text \<open>
  Toasts. A text is kept as the string the source writes; the two "Analysis complete"
  templates, which print numbers, are kept as the template with its arguments: score and
  language as read from the reply, and the numbers of errors, warnings and suggestions.
\<close>

datatype toast_text =
    Text string
  | AnalysisCompleteNoErrors "int option" "string option"
  | AnalysisComplete "int option" "string option" nat nat nat

datatype toast = toast_info toast_text | toast_error toast_text | toast_success toast_text

text \<open>
  A request is \<^verbatim>\<open>fetch(url, {method: "POST", body: JSON.stringify({code, language})})\<close>:
  the URL, then the two fields of the body; \<^verbatim>\<open>JSON.stringify\<close> leaves out a
  language that is \<^verbatim>\<open>undefined\<close>.
\<close>

datatype request = POST string string "string option"

text \<open>
  What comes back: \<^verbatim>\<open>fetch\<close> rejects, or there is a response with a status and a
  body whose \<^verbatim>\<open>res.json()\<close> either rejects (\<open>None\<close>) or yields a value of the
  declared type. \<^verbatim>\<open>res.ok\<close> is true for the statuses 200 to 299.
\<close>

datatype 'a response = Rejected | Response nat "'a option"

definition ok :: "nat \<Rightarrow> bool" where
  "ok status = (200 \<le> status \<and> status \<le> 299)"

text \<open>
  The value that \<^verbatim>\<open>await fetch(...); if (!res.ok) throw ...; await res.json()\<close>
  obtains inside a \<^verbatim>\<open>try\<close> block, \<open>None\<close> when one of the three throws.
\<close>

fun received :: "'a response \<Rightarrow> 'a option" where
  "received Rejected = None"
| "received (Response status body) = (if ok status then body else None)"

text \<open>
  The state variables of \<^verbatim>\<open>Index\<close>, and the effects of its handlers on the outside:
  the toasts shown and the requests sent, oldest first. The timer in
  \<^verbatim>\<open>fixTimeoutRef\<close> has an empty callback and \<^verbatim>\<open>console.error\<close> only
  logs; neither is part of the state. The language is a string as long as the page sets
  it; \<^verbatim>\<open>setLanguage(data.language)\<close> stores \<^verbatim>\<open>undefined\<close> when the reply has
  no language.
\<close>

record state =
  code :: string
  language :: "string option"
  isAnalyzing :: bool
  isFixing :: bool
  analysisResult :: "analysis option"
  scrollToLine :: "int option"
  history :: "HistoryItem list"
  toasts :: "toast list"
  requests :: "request list"

definition toast :: "toast \<Rightarrow> state \<Rightarrow> state" where
  "toast t s = s\<lparr>toasts := toasts s @ [t]\<rparr>"

definition fetch :: "request \<Rightarrow> state \<Rightarrow> state" where
  "fetch q s = s\<lparr>requests := requests s @ [q]\<rparr>"

section \<open>IssuesPanel\<close>

text \<open>
  The filter is one of \<^verbatim>\<open>"All" | "Critical" | "Major" | "Minor"\<close>; \<open>Only v\<close> is
  the string of the severity \<open>v\<close>, so \<^verbatim>\<open>i.severity === filter\<close> is
  \<open>Only (severity i) = flt\<close>.
\<close>

datatype filter_setting = All | Only severity

definition visible :: "filter_setting \<Rightarrow> Issue list \<Rightarrow> Issue list" where
  "visible flt iss = filter (\<lambda>i. if flt = All then True else Only (severity i) = flt) iss"

text \<open>The two numbers of the header \<^verbatim>\<open>Issues Found ({visible.length}/{issues.length})\<close>.\<close>

definition header_counts :: "filter_setting \<Rightarrow> Issue list \<Rightarrow> nat \<times> nat" where
  "header_counts flt iss = (length (visible flt iss), length iss)"

section \<open>Index\<close>

definition defaultCode :: string where
  "defaultCode =
     ''// Paste your code here and it will auto-detect the language!\<newline>'' @
     ''// Examples:\<newline>'' @
     ''// JavaScript: function hello() { console.log(\"world\"); }\<newline>'' @
     ''// Python: def hello(): print(\"world\")\<newline>'' @
     ''// Java: public class Hello { public static void main(String[] args) { System.out.println(\"world\"); } }\<newline>'' @
     ''// C++: #include <iostream> using namespace std; int main() { cout << \"world\"; return 0; }\<newline>'' @
     ''// C: #include <stdio.h> int main() { printf(\"world\"); return 0; }\<newline>'' @
     ''// TypeScript: interface User { name: string; }''"

text \<open>The initial values of the \<^verbatim>\<open>useState\<close> calls; nothing shown or sent yet.\<close>

definition init :: state where
  "init = \<lparr>code = defaultCode, language = Some ''auto'', isAnalyzing = False, isFixing = False,
            analysisResult = None, scrollToLine = None, history = [],
            toasts = [], requests = []\<rparr>"

subsection \<open>handleCodeChange\<close>

text \<open>
  The chain of tests that sets \<^verbatim>\<open>detectedLanguage\<close>, on the text
  \<^verbatim>\<open>newCode.trim().toLowerCase()\<close>; the empty string when no test succeeds.
\<close>

definition detect :: "string \<Rightarrow> string" where
  "detect c =
    (if includes_str c ''def '' \<or> includes_str c ''import '' \<or> includes_str c ''print('' then ''python''
     else if includes_str c ''public class'' \<or> includes_str c ''system.out.println'' \<or> includes_str c ''import java.'' then ''java''
     else if includes_str c ''using namespace'' \<or> includes_str c ''std::'' \<or> (includes_str c ''#include'' \<and> includes_str c ''iostream'') then ''cpp''
     else if includes_str c ''#include'' \<and> (includes_str c ''stdio.h'' \<or> includes_str c ''stdlib.h'' \<or> includes_str c ''string.h'') then ''c''
     else if includes_str c ''interface '' \<or> includes_str c ''type '' \<or> includes_str c '': string'' \<or> includes_str c ''array<'' then ''typescript''
     else if includes_str c ''function '' \<or> includes_str c ''=>'' \<or> includes_str c ''console.log'' \<or> includes_str c ''const '' then ''javascript''
     else [])"

definition handleCodeChange :: "string \<Rightarrow> state \<Rightarrow> state" where
  "handleCodeChange newCode s =
    (let s1 = s\<lparr>code := newCode\<rparr> in
     if language s = Some ''auto'' \<and> trim newCode \<noteq> [] then
       (let detectedLanguage = detect (toLowerCase (trim newCode)) in
        if detectedLanguage \<noteq> [] \<and> Some detectedLanguage \<noteq> language s then
          toast (toast_info (Text (''Auto-detected: '' @ capitalise detectedLanguage)))
            (s1\<lparr>language := Some detectedLanguage\<rparr>)
        else s1)
     else s1)"

subsection \<open>The detection as a search in a priority order\<close>

text \<open>
  The reading of the detection to compare \<open>detect\<close> with: the six languages in their
  order of priority, the markers of each, and the first language of the order whose
  markers occur in the text.
\<close>

datatype lang = Python | Java | Cpp | C | TypeScript | JavaScript

fun lang_name :: "lang \<Rightarrow> string" where
  "lang_name Python = ''python''"
| "lang_name Java = ''java''"
| "lang_name Cpp = ''cpp''"
| "lang_name C = ''c''"
| "lang_name TypeScript = ''typescript''"
| "lang_name JavaScript = ''javascript''"

fun markers :: "lang \<Rightarrow> string \<Rightarrow> bool" where
  "markers Python c = (includes_str c ''def '' \<or> includes_str c ''import '' \<or> includes_str c ''print('')"
| "markers Java c = (includes_str c ''public class'' \<or> includes_str c ''system.out.println'' \<or> includes_str c ''import java.'')"
| "markers Cpp c = (includes_str c ''using namespace'' \<or> includes_str c ''std::'' \<or> (includes_str c ''#include'' \<and> includes_str c ''iostream''))"
| "markers C c = (includes_str c ''#include'' \<and> (includes_str c ''stdio.h'' \<or> includes_str c ''stdlib.h'' \<or> includes_str c ''string.h''))"
| "markers TypeScript c = (includes_str c ''interface '' \<or> includes_str c ''type '' \<or> includes_str c '': string'' \<or> includes_str c ''array<'')"
| "markers JavaScript c = (includes_str c ''function '' \<or> includes_str c ''=>'' \<or> includes_str c ''console.log'' \<or> includes_str c ''const '')"

definition priority :: "lang list" where
  "priority = [Python, Java, Cpp, C, TypeScript, JavaScript]"

definition highest_priority :: "string \<Rightarrow> lang option" where
  "highest_priority c = find (\<lambda>l. markers l c) priority"

subsection \<open>handleAnalyze\<close>

text \<open>
  An \<^verbatim>\<open>async\<close> handler runs in pieces: from the call to the first
  \<^verbatim>\<open>await\<close> of a request, and from the arrival of the response to the end. Every
  piece takes two states: \<open>r\<close>, the state of the render whose closure the handler is
  (the constants \<^verbatim>\<open>code\<close>, \<^verbatim>\<open>language\<close>, \<^verbatim>\<open>isFixing\<close> that the
  handler reads), and \<open>s\<close>, the current state, which the setters update. For a handler
  called from the page \<open>r\<close> is the state at the call.

  \<open>handleAnalyze_request\<close> is the source up to \<^verbatim>\<open>await fetch("/api/analyze", ...)\<close>;
  the flag tells whether the request was sent, so that a response is awaited.
  \<^verbatim>\<open>(source || "")\<close> is \<open>source\<close> for a string.
\<close>

definition handleAnalyze_request :: "state \<Rightarrow> string option \<Rightarrow> state \<Rightarrow> state \<times> bool" where
  "handleAnalyze_request r overrideCode s =
    (let source = (case overrideCode of None \<Rightarrow> code r | Some c \<Rightarrow> c);
         trimmed = trim source in
     if trimmed = [] then
       (toast (toast_error (Text ''Please paste or type some code before analyzing.'')) s, False)
     else
       (fetch (POST ''/api/analyze'' trimmed (language r))
          (toast (toast_info (Text ''Analyzing your code...''))
             (s\<lparr>isAnalyzing := True, scrollToLine := None\<rparr>)), True))"

text \<open>\<^verbatim>\<open>{ id: crypto.randomUUID(), ...data }\<close>, for the UUID that the call returns.\<close>

definition historyItem :: "string \<Rightarrow> AnalyzeResponse \<Rightarrow> HistoryItem" where
  "historyItem uuid data =
     \<lparr>codeQualityScore = codeQualityScore data, issues = issues data, metrics = metrics data,
      language = AnalyzeResponse.language data, analyzedAt = analyzedAt data,
      code = AnalyzeResponse.code data, item_id = uuid\<rparr>"

definition countType :: "string \<Rightarrow> Issue list \<Rightarrow> nat" where
  "countType t iss = length (filter (\<lambda>issue. type issue = t) iss)"

text \<open>
  \<^verbatim>\<open>{}\<close>, the object without fields; \<^verbatim>\<open>{ id: uuid, ...null }\<close> spreads
  nothing into the new object.
\<close>

definition emptyObject :: AnalyzeResponse where
  "emptyObject = \<lparr>codeQualityScore = None, issues = None, metrics = None, language = None,
                   analyzedAt = None, code = None\<rparr>"

text \<open>What a template literal prints for \<^verbatim>\<open>${data.language}\<close>.\<close>

definition shown :: "string option \<Rightarrow> string" where
  "shown x = (case x of None \<Rightarrow> ''undefined'' | Some t \<Rightarrow> t)"

text \<open>\<^verbatim>\<open>catch\<close> followed by \<^verbatim>\<open>finally\<close>.\<close>

definition analyzeFailed :: "state \<Rightarrow> state" where
  "analyzeFailed s = (toast (toast_error (Text ''Failed to analyze code'')) s)\<lparr>isAnalyzing := False\<rparr>"

text \<open>
  The rest of \<^verbatim>\<open>handleAnalyze\<close>, from the response on: the \<^verbatim>\<open>try\<close> block after
  the request, \<^verbatim>\<open>catch\<close> and \<^verbatim>\<open>finally\<close>. \<open>uuid\<close> is what
  \<^verbatim>\<open>crypto.randomUUID()\<close> returns.

  The statements of the \<^verbatim>\<open>try\<close> block run in order until one throws; the setters
  called before that have taken effect. For the body \<^verbatim>\<open>null\<close>,
  \<^verbatim>\<open>data.language\<close> throws when the closure's language is "auto" (otherwise
  \<^verbatim>\<open>&&\<close> does not evaluate it) and \<^verbatim>\<open>data.issues\<close> throws after
  \<^verbatim>\<open>setHistory\<close>. For an object without \<^verbatim>\<open>issues\<close>,
  \<^verbatim>\<open>data.issues.filter\<close> throws after \<^verbatim>\<open>setHistory\<close>.
\<close>

definition handleAnalyze_response ::
    "state \<Rightarrow> AnalyzeResponse parsed response \<Rightarrow> string \<Rightarrow> state \<Rightarrow> state" where
  "handleAnalyze_response r res uuid s =
    (case received res of
       None \<Rightarrow> analyzeFailed s
     | Some Null \<Rightarrow>
        (let s1 = s\<lparr>analysisResult := None\<rparr> in
         if language r = Some ''auto'' then analyzeFailed s1
         else analyzeFailed (s1\<lparr>history := take 10 (historyItem uuid emptyObject # history s1)\<rparr>))
     | Some (Object data) \<Rightarrow>
        (let s1 = s\<lparr>analysisResult := Some (Fresh data)\<rparr>;
             s2 = (if language r = Some ''auto'' \<and> AnalyzeResponse.language data \<noteq> Some ''auto'' then
                     toast (toast_success (Text (''Auto-detected language: '' @ shown (AnalyzeResponse.language data))))
                       (s1\<lparr>language := AnalyzeResponse.language data\<rparr>)
                   else s1);
             s3 = s2\<lparr>history := take 10 (historyItem uuid data # history s2)\<rparr>
         in case issues data of
              None \<Rightarrow> analyzeFailed s3
            | Some iss \<Rightarrow>
               (let errorCount = countType ''Error'' iss;
                    warningCount = countType ''Warning'' iss;
                    suggestionCount = countType ''Suggestion'' iss;
                    s4 = (if errorCount = 0 then
                            toast (toast_success (AnalysisCompleteNoErrors (codeQualityScore data)
                                     (AnalyzeResponse.language data))) s3
                          else
                            toast (toast_success (AnalysisComplete (codeQualityScore data)
                                     (AnalyzeResponse.language data) errorCount warningCount suggestionCount)) s3)
                in s4\<lparr>isAnalyzing := False\<rparr>)))"

text \<open>The whole handler, called from the page in state \<open>s\<close>, with nothing in between.\<close>

definition handleAnalyze ::
    "string option \<Rightarrow> AnalyzeResponse parsed response \<Rightarrow> string \<Rightarrow> state \<Rightarrow> state" where
  "handleAnalyze overrideCode res uuid s =
    (case handleAnalyze_request s overrideCode s of
       (s1, False) \<Rightarrow> s1
     | (s1, True) \<Rightarrow> handleAnalyze_response s res uuid s1)"

subsection \<open>handleFix\<close>

text \<open>Up to \<^verbatim>\<open>await fetch("/api/fix", ...)\<close>; the flag tells whether the request was sent.\<close>

definition handleFix_request :: "state \<Rightarrow> state \<Rightarrow> state \<times> bool" where
  "handleFix_request r s =
    (if isFixing r then (toast (toast_info (Text ''Fix already in progress...'')) s, False)
     else
       (let trimmed = trim (code r) in
        if trimmed = [] then (toast (toast_error (Text ''Add some code first.'')) s, False)
        else
          (fetch (POST ''/api/fix'' trimmed (language r))
             (toast (toast_info (Text ''Applying AI fixes...'')) (s\<lparr>isFixing := True\<rparr>)), True)))"

text \<open>The \<^verbatim>\<open>finally\<close> block.\<close>

definition handleFix_finally :: "state \<Rightarrow> state" where
  "handleFix_finally s = s\<lparr>isFixing := False\<rparr>"

text \<open>
  From the response of /api/fix on. On success the handler calls
  \<^verbatim>\<open>handleAnalyze(fixedCode)\<close> of its own closure; the flag tells whether that call
  sent its request, so that \<^verbatim>\<open>handleFix\<close> stays suspended in
  \<^verbatim>\<open>await handleAnalyze(fixedCode)\<close>. \<^verbatim>\<open>handleAnalyze\<close> catches every error
  itself, so \<^verbatim>\<open>catch\<close> is reached from the request of /api/fix only.
\<close>

definition handleFix_response :: "state \<Rightarrow> FixResponse response \<Rightarrow> state \<Rightarrow> state \<times> bool" where
  "handleFix_response r res s =
    (case received res of
       None \<Rightarrow> (handleFix_finally (toast (toast_error (Text ''Failed to apply fixes'')) s), False)
     | Some fx \<Rightarrow>
        (let s1 = s\<lparr>code := fixedCode fx\<rparr>;
             s2 = (if changes fx \<noteq> [] \<and> \<not> (length (changes fx) = 1 \<and> changes fx ! 0 = ''No changes'') then
                     toast (toast_success (Text (''Fixed with '' @ source fx @ '': '' @ join '', '' (changes fx)))) s1
                   else toast (toast_info (Text ''No fixes needed.'')) s1)
         in case handleAnalyze_request r (Some (fixedCode fx)) s2 of
              (s3, True) \<Rightarrow> (s3, True)
            | (s3, False) \<Rightarrow> (handleFix_finally s3, False)))"

text \<open>The whole handler, called from the page in state \<open>s\<close>, with nothing in between.\<close>

definition handleFix ::
    "FixResponse response \<Rightarrow> AnalyzeResponse parsed response \<Rightarrow> string \<Rightarrow> state \<Rightarrow> state" where
  "handleFix fixRes res uuid s =
    (case handleFix_request s s of
       (s1, False) \<Rightarrow> s1
     | (s1, True) \<Rightarrow>
        (case handleFix_response s fixRes s1 of
           (s2, False) \<Rightarrow> s2
         | (s2, True) \<Rightarrow> handleFix_finally (handleAnalyze_response s res uuid s2)))"

subsection \<open>handleReset and the inline handlers\<close>

definition handleReset :: "state \<Rightarrow> state" where
  "handleReset s =
     toast (toast_info (Text ''Code reset to default''))
       (s\<lparr>code := defaultCode, analysisResult := None, scrollToLine := None\<rparr>)"

text \<open>The Load button of a history row: \<^verbatim>\<open>onClick={() => setAnalysisResult(h)}\<close>.\<close>

definition loadHistory :: "HistoryItem \<Rightarrow> state \<Rightarrow> state" where
  "loadHistory h s = s\<lparr>analysisResult := Some (Loaded h)\<rparr>"

text \<open>\<^verbatim>\<open>onIssueClick={(line) => setScrollToLine(line)}\<close> and \<^verbatim>\<open>onValueChange={setLanguage}\<close>.\<close>

definition issueClick :: "int \<Rightarrow> state \<Rightarrow> state" where
  "issueClick n s = s\<lparr>scrollToLine := Some n\<rparr>"

definition setLanguage :: "string \<Rightarrow> state \<Rightarrow> state" where
  "setLanguage l s = s\<lparr>language := Some l\<rparr>"

section \<open>The page with requests in flight\<close>

text \<open>
  While a handler waits for a response the page goes on handling events. A suspended
  handler is a task that keeps its closure: \<open>AwaitFix r\<close> is \<^verbatim>\<open>handleFix\<close> waiting
  for /api/fix; \<open>AwaitAnalyze r inFix\<close> is \<^verbatim>\<open>handleAnalyze\<close> waiting for
  /api/analyze, called from the page (\<open>inFix = False\<close>) or from \<^verbatim>\<open>handleFix\<close>,
  which then waits for it and runs its \<^verbatim>\<open>finally\<close> afterwards.
\<close>

datatype task = AwaitFix state | AwaitAnalyze state bool

record system =
  page :: state
  pending :: "task list"

definition start :: system where
  "start = \<lparr>page = init, pending = []\<rparr>"

text \<open>
  Events: the user's actions, each calling its handler whether or not the button is
  drawn disabled, and the arrival of the response for the task at a position of
  \<open>pending\<close>.
\<close>

datatype event =
    Typed string
  | Selected string
  | ClickAnalyze
  | ClickFix
  | ClickReset
  | ClickIssue int
  | ClickLoad nat
  | AnalyzeDone nat "AnalyzeResponse parsed response" string
  | FixDone nat "FixResponse response"

definition removeAt :: "nat \<Rightarrow> 'a list \<Rightarrow> 'a list" where
  "removeAt i xs = take i xs @ drop (Suc i) xs"

fun step :: "event \<Rightarrow> system \<Rightarrow> system" where
  "step (Typed newCode) sys = sys\<lparr>page := handleCodeChange newCode (page sys)\<rparr>"
| "step (Selected l) sys = sys\<lparr>page := setLanguage l (page sys)\<rparr>"
| "step ClickAnalyze sys =
    (case handleAnalyze_request (page sys) None (page sys) of
       (s1, True) \<Rightarrow> \<lparr>page = s1, pending = pending sys @ [AwaitAnalyze (page sys) False]\<rparr>
     | (s1, False) \<Rightarrow> sys\<lparr>page := s1\<rparr>)"
| "step ClickFix sys =
    (case handleFix_request (page sys) (page sys) of
       (s1, True) \<Rightarrow> \<lparr>page = s1, pending = pending sys @ [AwaitFix (page sys)]\<rparr>
     | (s1, False) \<Rightarrow> sys\<lparr>page := s1\<rparr>)"
| "step ClickReset sys = sys\<lparr>page := handleReset (page sys)\<rparr>"
| "step (ClickIssue n) sys = sys\<lparr>page := issueClick n (page sys)\<rparr>"
| "step (ClickLoad i) sys =
    (if i < length (history (page sys)) then sys\<lparr>page := loadHistory (history (page sys) ! i) (page sys)\<rparr>
     else sys)"
| "step (AnalyzeDone i res uuid) sys =
    (if i < length (pending sys) then
       (case pending sys ! i of
          AwaitAnalyze r inFix \<Rightarrow>
            (let s1 = handleAnalyze_response r res uuid (page sys) in
             \<lparr>page = (if inFix then handleFix_finally s1 else s1),
              pending = removeAt i (pending sys)\<rparr>)
        | AwaitFix r \<Rightarrow> sys)
     else sys)"
| "step (FixDone i res) sys =
    (if i < length (pending sys) then
       (case pending sys ! i of
          AwaitFix r \<Rightarrow>
            (case handleFix_response r res (page sys) of
               (s1, True) \<Rightarrow> \<lparr>page = s1, pending = removeAt i (pending sys) @ [AwaitAnalyze r True]\<rparr>
             | (s1, False) \<Rightarrow> \<lparr>page = s1, pending = removeAt i (pending sys)\<rparr>)
        | AwaitAnalyze r inFix \<Rightarrow> sys)
     else sys)"

inductive reachable :: "system \<Rightarrow> bool" where
  reachable_start: "reachable start"
| reachable_step: "reachable sys \<Longrightarrow> reachable (step e sys)"

text \<open>The tasks that belong to a running \<^verbatim>\<open>handleFix\<close>.\<close>

fun fixing :: "task \<Rightarrow> bool" where
  "fixing (AwaitFix r) = True"
| "fixing (AwaitAnalyze r inFix) = inFix"

text \<open>
  The flag \<^verbatim>\<open>isFixing\<close> against the tasks: it is set exactly when one task of a
  running \<^verbatim>\<open>handleFix\<close> is pending, and then there is only one.
\<close>

definition fix_inv :: "system \<Rightarrow> bool" where
  "fix_inv sys = (length (filter fixing (pending sys)) = (if isFixing (page sys) then 1 else 0))"

subsection \<open>Example values\<close>



definition typedPage :: system where
  "typedPage = step (Typed ''x=1'') start"

definition fixingPage :: system where
  "fixingPage = step ClickFix typedPage"

section \<open>Facts about the string functions\<close>

lemma includes_str_sublist: "includes_str s p = sublist p s"
  by (induction s) (simp_all add: sublist_Cons_right)

lemma includes_str_iff: "includes_str s p \<longleftrightarrow> (\<exists>a b. s = a @ p @ b)"
  by (simp add: includes_str_sublist sublist_def)

lemma plus32_of_char: "isUpper c \<Longrightarrow> of_char (plus32 c) = (of_char c :: nat) + 32"
  by (cases c) (simp add: isUpper_def Let_def of_bool_def split: if_splits)

lemma minus32_of_char: "isLowerAscii c \<Longrightarrow> (of_char (minus32 c) :: nat) + 32 = of_char c"
  by (cases c) (simp add: isLowerAscii_def Let_def of_bool_def split: if_splits)

lemma trim_Nil_iff: "trim s = [] \<longleftrightarrow> (\<forall>c \<in> set s. isWhiteSpace c)"
proof (cases "dropWhile isWhiteSpace s")
  case Nil
  then have "\<forall>c \<in> set s. isWhiteSpace c"
    by (simp add: dropWhile_eq_Nil_conv)
  moreover have "trim s = []"
    by (simp add: trim_def Nil)
  ultimately show ?thesis by simp
next
  case (Cons d ds)
  then have "\<not> isWhiteSpace (hd (dropWhile isWhiteSpace s))"
    using hd_dropWhile [of isWhiteSpace s] by simp
  with Cons have "\<not> isWhiteSpace d" by simp
  moreover from Cons have "\<not> (\<forall>c \<in> set s. isWhiteSpace c)"
    using dropWhile_eq_Nil_conv [of isWhiteSpace s] by simp
  ultimately show ?thesis using Cons by (simp add: trim_def dropWhile_eq_Nil_conv)
qed

lemma includes_str_nonempty: "includes_str c p \<Longrightarrow> p \<noteq> [] \<Longrightarrow> c \<noteq> []"
  by (cases c) auto

lemma toLowerCase_Nil_iff: "toLowerCase s = [] \<longleftrightarrow> s = []"
  by (simp add: toLowerCase_def)

section \<open>Language detection\<close>

text \<open>
  C1. Let the text \<^verbatim>\<open>newCode.trim().toLowerCase()\<close> contain "console.log" and none of
  the markers of Python, Java, C++, C and TypeScript. Then \<^verbatim>\<open>handleCodeChange\<close>,
  called while the selected language is "auto", detects "javascript": the trimmed input is
  not empty, \<^verbatim>\<open>detectedLanguage\<close> is "javascript", the selected language becomes
  "javascript" and the toast "Auto-detected: Javascript" is shown.
\<close>

theorem handleCodeChange_console_log:
  assumes "language s = Some ''auto''"
    and "includes_str (toLowerCase (trim newCode)) ''console.log''"
    and "\<not> includes_str (toLowerCase (trim newCode)) ''def ''"
    and "\<not> includes_str (toLowerCase (trim newCode)) ''import ''"
    and "\<not> includes_str (toLowerCase (trim newCode)) ''print(''"
    and "\<not> includes_str (toLowerCase (trim newCode)) ''public class''"
    and "\<not> includes_str (toLowerCase (trim newCode)) ''system.out.println''"
    and "\<not> includes_str (toLowerCase (trim newCode)) ''import java.''"
    and "\<not> includes_str (toLowerCase (trim newCode)) ''using namespace''"
    and "\<not> includes_str (toLowerCase (trim newCode)) ''std::''"
    and "\<not> (includes_str (toLowerCase (trim newCode)) ''#include''
            \<and> includes_str (toLowerCase (trim newCode)) ''iostream'')"
    and "\<not> (includes_str (toLowerCase (trim newCode)) ''#include''
            \<and> (includes_str (toLowerCase (trim newCode)) ''stdio.h''
               \<or> includes_str (toLowerCase (trim newCode)) ''stdlib.h''
               \<or> includes_str (toLowerCase (trim newCode)) ''string.h''))"
    and "\<not> includes_str (toLowerCase (trim newCode)) ''interface ''"
    and "\<not> includes_str (toLowerCase (trim newCode)) ''type ''"
    and "\<not> includes_str (toLowerCase (trim newCode)) '': string''"
    and "\<not> includes_str (toLowerCase (trim newCode)) ''array<''"
  shows "trim newCode \<noteq> []
    \<and> detect (toLowerCase (trim newCode)) = ''javascript''
    \<and> language (handleCodeChange newCode s) = Some ''javascript''
    \<and> toasts (handleCodeChange newCode s) = toasts s @ [toast_info (Text ''Auto-detected: Javascript'')]"
proof -
  have ne: "trim newCode \<noteq> []"
    using includes_str_nonempty [OF assms(2)] by (simp add: toLowerCase_Nil_iff)
  have d: "detect (toLowerCase (trim newCode)) = ''javascript''"
    by (simp only: detect_def assms(2-) if_True if_False simp_thms)
  have cap: "capitalise ''javascript'' = ''Javascript''"
    by (simp add: capitalise_def isLowerAscii_def)
  show ?thesis
    using ne d cap assms(1) by (simp add: handleCodeChange_def toast_def)
qed

text \<open>The input " Console.LOG(x);" followed by a newline, typed into the initial page.\<close>

theorem handleCodeChange_console_log_witness:
  "language init = Some ''auto''
   \<and> includes_str (toLowerCase (trim '' Console.LOG(x);\<newline>'')) ''console.log''
   \<and> language (handleCodeChange '' Console.LOG(x);\<newline>'' init) = Some ''javascript''"
proof -
  have s: "toLowerCase (trim '' Console.LOG(x);\<newline>'') = ''console.log(x);''"
    by (simp add: toLowerCase_def trim_def isUpper_def isWhiteSpace_def)
  have l: "language init = Some ''auto''"
    by (simp add: init_def)
  have i: "includes_str ''console.log(x);'' ''console.log''"
    by simp
  show ?thesis
    using handleCodeChange_console_log [of init "'' Console.LOG(x);\<newline>''", unfolded s] l i
    unfolding s by simp
qed

lemma detect_markers:
  "detect c =
    (if markers Python c then ''python'' else if markers Java c then ''java''
     else if markers Cpp c then ''cpp'' else if markers C c then ''c''
     else if markers TypeScript c then ''typescript''
     else if markers JavaScript c then ''javascript'' else [])"
  by (simp only: detect_def markers.simps)

lemma highest_priority_markers:
  "highest_priority c =
    (if markers Python c then Some Python else if markers Java c then Some Java
     else if markers Cpp c then Some Cpp else if markers C c then Some C
     else if markers TypeScript c then Some TypeScript
     else if markers JavaScript c then Some JavaScript else None)"
  by (simp add: highest_priority_def priority_def del: markers.simps)

lemma detect_highest_priority:
  "detect c = (case highest_priority c of None \<Rightarrow> [] | Some l \<Rightarrow> lang_name l)"
  by (simp add: detect_markers highest_priority_markers del: markers.simps)

lemma lang_name_not_auto: "lang_name l \<noteq> ''auto'' \<and> lang_name l \<noteq> []"
  by (cases l) simp_all

text \<open>
  C2, as the code has it. Called while the selected language is "auto" with an input whose
  trimmed text is not empty, \<^verbatim>\<open>handleCodeChange\<close> selects exactly one language: the
  first of Python, Java, C++, C, TypeScript, JavaScript whose markers occur in the
  trimmed, lower-cased text, and it keeps "auto" when there is none. In particular, when
  the trimmed, lower-cased text contains "import " the language is Python, whatever else
  it contains.
\<close>

theorem detection_priority:
  assumes "language s = Some ''auto''" and "trim newCode \<noteq> []"
  shows "language (handleCodeChange newCode s) =
           (case highest_priority (toLowerCase (trim newCode)) of
              None \<Rightarrow> Some ''auto'' | Some l \<Rightarrow> Some (lang_name l))
         \<and> (includes_str (toLowerCase (trim newCode)) ''import '' \<longrightarrow>
              language (handleCodeChange newCode s) = Some ''python'')"
proof -
  let ?c = "toLowerCase (trim newCode)"
  have 1: "language (handleCodeChange newCode s) =
           (case highest_priority ?c of None \<Rightarrow> Some ''auto'' | Some l \<Rightarrow> Some (lang_name l))"
  proof (cases "highest_priority ?c")
    case None
    then show ?thesis
      using assms by (simp add: handleCodeChange_def detect_highest_priority Let_def)
  next
    case (Some l)
    then show ?thesis
      using assms lang_name_not_auto [of l]
      by (simp add: handleCodeChange_def detect_highest_priority toast_def Let_def)
  qed
  have 2: "language (handleCodeChange newCode s) = Some ''python''"
    if "includes_str ?c ''import ''"
  proof -
    from that have "highest_priority ?c = Some Python"
      by (simp add: highest_priority_def priority_def)
    with 1 show ?thesis by simp
  qed
  from 1 2 show ?thesis by simp
qed

text \<open>"Import fs; const a = 1" has a Python and a JavaScript marker, and is Python.\<close>

theorem detection_priority_witness:
  "language init = Some ''auto''
   \<and> includes_str (toLowerCase (trim ''Import fs; const a = 1'')) ''import ''
   \<and> includes_str (toLowerCase (trim ''Import fs; const a = 1'')) ''const ''
   \<and> language (handleCodeChange ''Import fs; const a = 1'' init) = Some ''python''"
proof -
  have s: "toLowerCase (trim ''Import fs; const a = 1'') = ''import fs; const a = 1''"
    by (simp add: toLowerCase_def trim_def isUpper_def isWhiteSpace_def)
  have t: "trim ''Import fs; const a = 1'' \<noteq> []"
    by (simp add: trim_def isWhiteSpace_def)
  have l: "language init = Some ''auto''"
    by (simp add: init_def)
  have i: "includes_str ''import fs; const a = 1'' ''import ''"
    by simp
  have j: "includes_str ''import fs; const a = 1'' ''const ''"
    by simp
  show ?thesis
    using detection_priority [OF l t] i j l unfolding s
    by (simp add: highest_priority_def priority_def)
qed

text \<open>
  Without the trimming the statement fails: the snippet "const a = 1; import " contains
  "import ", also after lower-casing, but \<^verbatim>\<open>trim\<close> removes the final space before
  the tests run, and the snippet is detected as JavaScript.
\<close>

theorem import_trailing_counterexample:
  "includes_str ''const a = 1; import '' ''import ''
   \<and> includes_str (toLowerCase ''const a = 1; import '') ''import ''
   \<and> language init = Some ''auto''
   \<and> language (handleCodeChange ''const a = 1; import '' init) = Some ''javascript''"
proof -
  have s: "toLowerCase (trim ''const a = 1; import '') = ''const a = 1; import''"
    by (simp add: toLowerCase_def trim_def isUpper_def isWhiteSpace_def)
  have u: "toLowerCase ''const a = 1; import '' = ''const a = 1; import ''"
    by (simp add: toLowerCase_def isUpper_def)
  have t: "trim ''const a = 1; import '' \<noteq> []"
    by (simp add: trim_def isWhiteSpace_def)
  have d: "detect ''const a = 1; import'' = ''javascript''"
    by (simp add: detect_def)
  have l: "language init = Some ''auto''"
    by (simp add: init_def)
  have i: "includes_str ''const a = 1; import '' ''import ''"
    by simp
  show ?thesis
    unfolding u using i l t d by (simp add: handleCodeChange_def s toast_def Let_def)
qed

section \<open>The issue filter\<close>

text \<open>
  C6. With the filter "All" the visible list is the list of issues. With the filter set to
  a severity it is the list of the issues of that severity, in their order in the input.
  For every filter the visible list is a subsequence of the input, the header shows the
  length of the visible list and the length of the input, and the first number is at most
  the second.
\<close>

theorem visible_filter:
  "visible All iss = iss
   \<and> visible (Only v) iss = filter (\<lambda>i. severity i = v) iss
   \<and> subseq (visible flt iss) iss
   \<and> header_counts flt iss = (length (visible flt iss), length iss)
   \<and> fst (header_counts flt iss) \<le> snd (header_counts flt iss)"
  by (simp add: visible_def header_counts_def)

section \<open>Reset\<close>

text \<open>
  C10. \<^verbatim>\<open>handleReset\<close> sets the code to the default snippet, clears the analysis
  result and the line to scroll to, and shows a toast. The selected language, the history,
  the two progress flags and the requests sent stay as they were.
\<close>

theorem handleReset_frame:
  "code (handleReset s) = defaultCode
   \<and> analysisResult (handleReset s) = None
   \<and> scrollToLine (handleReset s) = None
   \<and> language (handleReset s) = language s
   \<and> history (handleReset s) = history s
   \<and> isAnalyzing (handleReset s) = isAnalyzing s
   \<and> isFixing (handleReset s) = isFixing s
   \<and> requests (handleReset s) = requests s
   \<and> toasts (handleReset s) = toasts s @ [toast_info (Text ''Code reset to default'')]"
  by (simp add: handleReset_def toast_def)

section \<open>Analysis\<close>

lemmas handler_defs =
  handleAnalyze_def handleAnalyze_request_def handleAnalyze_response_def analyzeFailed_def
  handleFix_def handleFix_request_def handleFix_response_def handleFix_finally_def
  toast_def fetch_def Let_def

lemma received_None_iff:
  "received res = None \<longleftrightarrow>
     res = Rejected \<or> (\<exists>status body. res = Response status body \<and> (\<not> ok status \<or> body = None))"
  by (cases res) auto

lemma received_Some_iff:
  "received res = Some x \<longleftrightarrow> (\<exists>status. res = Response status (Some x) \<and> ok status)"
  by (cases res) auto

text \<open>
  C3. The source is \<^verbatim>\<open>overrideCode ?? code\<close>. When it is empty or whitespace only,
  \<^verbatim>\<open>handleAnalyze\<close> shows "Please paste or type some code before analyzing." and does
  nothing else: no request is sent, and the analysis result, the history and
  \<^verbatim>\<open>isAnalyzing\<close> are unchanged. For every other source one request is sent, to
  /api/analyze, and the code field of its body is the trimmed source.
\<close>

theorem handleAnalyze_blank_source:
  "(trim (case overrideCode of None \<Rightarrow> code s | Some c \<Rightarrow> c) = [] \<longrightarrow>
      handleAnalyze overrideCode res uuid s =
        s\<lparr>toasts := toasts s @ [toast_error (Text ''Please paste or type some code before analyzing.'')]\<rparr>
      \<and> requests (handleAnalyze overrideCode res uuid s) = requests s
      \<and> analysisResult (handleAnalyze overrideCode res uuid s) = analysisResult s
      \<and> history (handleAnalyze overrideCode res uuid s) = history s
      \<and> isAnalyzing (handleAnalyze overrideCode res uuid s) = isAnalyzing s)
   \<and> (trim (case overrideCode of None \<Rightarrow> code s | Some c \<Rightarrow> c) \<noteq> [] \<longrightarrow>
      requests (handleAnalyze overrideCode res uuid s) =
        requests s @ [POST ''/api/analyze'' (trim (case overrideCode of None \<Rightarrow> code s | Some c \<Rightarrow> c)) (language s)])"
  by (simp add: handler_defs split: option.splits parsed.splits)

text \<open>The sources " \n " and " x = 1 ", analysed from the initial page.\<close>

theorem handleAnalyze_blank_source_witness:
  "trim '' \<newline> '' = []
   \<and> requests (handleAnalyze (Some '' \<newline> '') Rejected ''u'' init) = []
   \<and> toasts (handleAnalyze (Some '' \<newline> '') Rejected ''u'' init) =
       [toast_error (Text ''Please paste or type some code before analyzing.'')]
   \<and> trim '' x = 1 '' = ''x = 1''
   \<and> requests (handleAnalyze (Some '' x = 1 '') Rejected ''u'' init) = [POST ''/api/analyze'' ''x = 1'' (Some ''auto'')]"
proof -
  have a: "trim '' \<newline> '' = []"
    by (simp add: trim_def isWhiteSpace_def)
  have b: "trim '' x = 1 '' = ''x = 1''"
    by (simp add: trim_def isWhiteSpace_def)
  show ?thesis
    using handleAnalyze_blank_source
        [where overrideCode = "Some '' \<newline> ''" and s = init and res = Rejected and uuid = "''u''"]
      handleAnalyze_blank_source
        [where overrideCode = "Some '' x = 1 ''" and s = init and res = Rejected and uuid = "''u''"]
    by (simp add: a b init_def)
qed

text \<open>
  C4, as the code has it. Let the source be neither empty nor whitespace only, so that the
  request is sent. If \<^verbatim>\<open>fetch\<close> rejects, the status is not ok, or
  \<^verbatim>\<open>res.json()\<close> rejects, then \<^verbatim>\<open>handleAnalyze\<close> shows
  "Failed to analyze code" and the analysis result and the history are as before the call.
  Whatever the response, also one whose body is \<^verbatim>\<open>null\<close> or lacks fields,
  \<^verbatim>\<open>isAnalyzing\<close> is false when the call has completed.
\<close>

theorem handleAnalyze_failure:
  assumes "trim (case overrideCode of None \<Rightarrow> code s | Some c \<Rightarrow> c) \<noteq> []"
  shows "(res = Rejected \<or> (\<exists>status body. res = Response status body \<and> (\<not> ok status \<or> body = None)) \<longrightarrow>
           toasts (handleAnalyze overrideCode res uuid s) =
             toasts s @ [toast_info (Text ''Analyzing your code...''),
                         toast_error (Text ''Failed to analyze code'')]
           \<and> analysisResult (handleAnalyze overrideCode res uuid s) = analysisResult s
           \<and> history (handleAnalyze overrideCode res uuid s) = history s)
         \<and> isAnalyzing (handleAnalyze overrideCode res uuid s) = False"
proof -
  have 1: "isAnalyzing (handleAnalyze overrideCode res uuid s) = False"
    using assms by (simp add: handler_defs split: option.splits parsed.splits)
  have 2: "toasts (handleAnalyze overrideCode res uuid s) =
             toasts s @ [toast_info (Text ''Analyzing your code...''),
                         toast_error (Text ''Failed to analyze code'')]
           \<and> analysisResult (handleAnalyze overrideCode res uuid s) = analysisResult s
           \<and> history (handleAnalyze overrideCode res uuid s) = history s"
    if "received res = None"
    using assms that by (simp add: handler_defs split: option.splits parsed.splits)
  show ?thesis
    using 1 2 by (simp add: received_None_iff)
qed

text \<open>A response with status 500, for the source "x = 1" analysed from the initial page.\<close>

theorem handleAnalyze_failure_witness:
  "trim ''x = 1'' \<noteq> []
   \<and> \<not> ok 500
   \<and> toasts (handleAnalyze (Some ''x = 1'') (Response 500 None) ''u'' init) =
       [toast_info (Text ''Analyzing your code...''), toast_error (Text ''Failed to analyze code'')]
   \<and> analysisResult (handleAnalyze (Some ''x = 1'') (Response 500 None) ''u'' init) = analysisResult init
   \<and> history (handleAnalyze (Some ''x = 1'') (Response 500 None) ''u'' init) = history init
   \<and> isAnalyzing (handleAnalyze (Some ''x = 1'') (Response 500 None) ''u'' init) = False"
proof -
  have a: "trim (case Some ''x = 1'' of None \<Rightarrow> code init | Some c \<Rightarrow> c) \<noteq> []"
    by (simp add: trim_def isWhiteSpace_def)
  have b: "\<not> ok 500"
    by (simp add: ok_def)
  show ?thesis
    using handleAnalyze_failure [OF a, where res = "Response 500 None" and uuid = "''u''"] a b
    by (simp add: init_def)
qed

text \<open>
  A response that cannot be processed after it was parsed. For a reply with status 200 and
  body \<^verbatim>\<open>{}\<close> the setters run before \<^verbatim>\<open>data.issues.filter\<close> throws:
  "Failed to analyze code" is shown, and the analysis result and the history are not as
  they were. For the body \<^verbatim>\<open>null\<close> and the language "auto",
  \<^verbatim>\<open>data.language\<close> throws after \<^verbatim>\<open>setAnalysisResult(null)\<close>: a result
  that was shown is cleared.
\<close>

theorem handleAnalyze_malformed_counterexample:
  "trim ''x = 1'' \<noteq> []
   \<and> ok 200
   \<and> toasts (handleAnalyze (Some ''x = 1'') (Response 200 (Some (Object emptyObject))) ''u'' init) =
       [toast_info (Text ''Analyzing your code...''),
        toast_success (Text ''Auto-detected language: undefined''),
        toast_error (Text ''Failed to analyze code'')]
   \<and> analysisResult init = None
   \<and> analysisResult (handleAnalyze (Some ''x = 1'') (Response 200 (Some (Object emptyObject))) ''u'' init) =
       Some (Fresh emptyObject)
   \<and> history init = []
   \<and> history (handleAnalyze (Some ''x = 1'') (Response 200 (Some (Object emptyObject))) ''u'' init) =
       [historyItem ''u'' emptyObject]
   \<and> toasts (handleAnalyze (Some ''x = 1'') (Response 200 (Some Null)) ''u''
         (init\<lparr>analysisResult := Some (Fresh emptyObject)\<rparr>)) =
       [toast_info (Text ''Analyzing your code...''), toast_error (Text ''Failed to analyze code'')]
   \<and> analysisResult (handleAnalyze (Some ''x = 1'') (Response 200 (Some Null)) ''u''
         (init\<lparr>analysisResult := Some (Fresh emptyObject)\<rparr>)) = None"
proof -
  have t: "trim ''x = 1'' = ''x = 1''"
    by (simp add: trim_def isWhiteSpace_def)
  have e: "AnalyzeResponse.language emptyObject = None" "issues emptyObject = None"
    by (simp_all add: emptyObject_def)
  show ?thesis
    by (simp add: handler_defs t e init_def ok_def shown_def)
qed

section \<open>Fix\<close>

lemma changes_test: "(length chs = 1 \<and> chs ! 0 = x) \<longleftrightarrow> chs = [x]"
proof (cases chs)
  case Nil
  then show ?thesis by simp
next
  case (Cons y ys)
  then show ?thesis by (cases ys) auto
qed

lemma handleAnalyze_response_frame:
  "code (handleAnalyze_response r res uuid s) = code s
   \<and> isFixing (handleAnalyze_response r res uuid s) = isFixing s
   \<and> requests (handleAnalyze_response r res uuid s) = requests s
   \<and> prefix (toasts s) (toasts (handleAnalyze_response r res uuid s))"
  by (simp add: handleAnalyze_response_def analyzeFailed_def toast_def Let_def split: option.splits parsed.splits)

text \<open>
  C5, as the code has it. Let \<^verbatim>\<open>handleFix\<close> be called with no fix in progress and
  code that is not blank, and let /api/fix answer successfully. Then the code becomes the
  returned \<^verbatim>\<open>fixedCode\<close> and \<^verbatim>\<open>handleAnalyze(fixedCode)\<close> is called. When the
  trimmed \<^verbatim>\<open>fixedCode\<close> is not empty, the next request goes to /api/analyze and
  carries the trimmed \<^verbatim>\<open>fixedCode\<close>, not the code from before the fix. When
  \<^verbatim>\<open>fixedCode\<close> is empty or whitespace only, no analysis request is sent and the
  last toast is "Please paste or type some code before analyzing.". When the list of
  changes is empty or is the single entry "No changes", the toast after
  "Applying AI fixes..." is "No fixes needed."; otherwise it is the success toast
  "Fixed with ...".
\<close>

theorem handleFix_success:
  assumes "\<not> isFixing s" and "trim (code s) \<noteq> []" and "received fixRes = Some fx"
  shows "code (handleFix fixRes res uuid s) = fixedCode fx
    \<and> (trim (fixedCode fx) \<noteq> [] \<longrightarrow>
         requests (handleFix fixRes res uuid s) =
           requests s @ [POST ''/api/fix'' (trim (code s)) (language s),
                         POST ''/api/analyze'' (trim (fixedCode fx)) (language s)])
    \<and> (trim (fixedCode fx) = [] \<longrightarrow>
         requests (handleFix fixRes res uuid s) =
           requests s @ [POST ''/api/fix'' (trim (code s)) (language s)]
         \<and> last (toasts (handleFix fixRes res uuid s)) =
             toast_error (Text ''Please paste or type some code before analyzing.''))
    \<and> (changes fx = [] \<or> changes fx = [''No changes''] \<longrightarrow>
         prefix (toasts s @ [toast_info (Text ''Applying AI fixes...''),
                             toast_info (Text ''No fixes needed.'')])
                (toasts (handleFix fixRes res uuid s)))
    \<and> (\<not> (changes fx = [] \<or> changes fx = [''No changes'']) \<longrightarrow>
         prefix (toasts s @ [toast_info (Text ''Applying AI fixes...''),
                             toast_success (Text (''Fixed with '' @ source fx @ '': '' @ join '', '' (changes fx)))])
                (toasts (handleFix fixRes res uuid s)))"
proof (cases "trim (fixedCode fx) = []")
  case True
  then show ?thesis
    using assms by (simp add: handler_defs changes_test del: One_nat_def)
next
  case False
  let ?s2 = "fst (handleFix_response s fixRes (fst (handleFix_request s s)))"
  have run: "handleFix fixRes res uuid s = handleFix_finally (handleAnalyze_response s res uuid ?s2)"
    using assms False by (simp add: handler_defs)
  have c: "code ?s2 = fixedCode fx"
    using assms False by (simp add: handler_defs)
  have q: "requests ?s2 = requests s @ [POST ''/api/fix'' (trim (code s)) (language s),
                         POST ''/api/analyze'' (trim (fixedCode fx)) (language s)]"
    using assms False by (simp add: handler_defs)
  have t: "toasts ?s2 = toasts s @ [toast_info (Text ''Applying AI fixes...''),
        (if changes fx = [] \<or> changes fx = [''No changes''] then toast_info (Text ''No fixes needed.'')
         else toast_success (Text (''Fixed with '' @ source fx @ '': '' @ join '', '' (changes fx)))),
        toast_info (Text ''Analyzing your code...'')]"
    using assms False by (simp add: handler_defs changes_test del: One_nat_def)
  have p: "prefix (toasts ?s2) (toasts (handleFix fixRes res uuid s))"
    unfolding run using handleAnalyze_response_frame [of s res uuid ?s2]
    by (simp add: handleFix_finally_def)
  have p2: "prefix (toasts s @ [toast_info (Text ''Applying AI fixes...''),
        (if changes fx = [] \<or> changes fx = [''No changes''] then toast_info (Text ''No fixes needed.'')
         else toast_success (Text (''Fixed with '' @ source fx @ '': '' @ join '', '' (changes fx))))])
        (toasts (handleFix fixRes res uuid s))"
    using p unfolding t by (auto simp: prefix_def)
  have c': "code (handleFix fixRes res uuid s) = fixedCode fx"
    unfolding run using c handleAnalyze_response_frame [of s res uuid ?s2]
    by (simp add: handleFix_finally_def)
  have q': "requests (handleFix fixRes res uuid s) = requests s @ [POST ''/api/fix'' (trim (code s)) (language s),
                         POST ''/api/analyze'' (trim (fixedCode fx)) (language s)]"
    unfolding run using q handleAnalyze_response_frame [of s res uuid ?s2]
    by (simp add: handleFix_finally_def)
  show ?thesis
    using False c' q' p2
    by (cases "changes fx = [] \<or> changes fx = [''No changes'']") simp_all
qed


text \<open>The code "x=1" fixed to " y=2 " with the single change "No changes".\<close>

theorem handleFix_success_witness:
  "\<not> isFixing init
   \<and> trim (code (init\<lparr>code := ''x=1''\<rparr>)) = ''x=1''
   \<and> ok 200
   \<and> code (handleFix (Response 200 (Some \<lparr>fixedCode = '' y=2 '', changes = [''No changes''], source = ''local'', language = ''python''\<rparr>))
         Rejected ''u'' (init\<lparr>code := ''x=1''\<rparr>)) = '' y=2 ''
   \<and> requests (handleFix (Response 200 (Some \<lparr>fixedCode = '' y=2 '', changes = [''No changes''], source = ''local'', language = ''python''\<rparr>))
         Rejected ''u'' (init\<lparr>code := ''x=1''\<rparr>))
       = [POST ''/api/fix'' ''x=1'' (Some ''auto''), POST ''/api/analyze'' ''y=2'' (Some ''auto'')]
   \<and> prefix [toast_info (Text ''Applying AI fixes...''), toast_info (Text ''No fixes needed.'')]
       (toasts (handleFix (Response 200 (Some \<lparr>fixedCode = '' y=2 '', changes = [''No changes''], source = ''local'', language = ''python''\<rparr>))
         Rejected ''u'' (init\<lparr>code := ''x=1''\<rparr>)))"
proof -
  let ?fx = "\<lparr>fixedCode = '' y=2 '', changes = [''No changes''], source = ''local'', language = ''python''\<rparr>"
  let ?s = "init\<lparr>code := ''x=1''\<rparr>"
  have a: "\<not> isFixing ?s"
    by (simp add: init_def)
  have b: "trim (code ?s) \<noteq> []"
    by (simp add: trim_def isWhiteSpace_def)
  have c: "received (Response 200 (Some ?fx)) = Some ?fx"
    by (simp add: ok_def)
  have d: "trim '' y=2 '' = ''y=2''" "trim ''x=1'' = ''x=1''"
    by (simp_all add: trim_def isWhiteSpace_def)
  show ?thesis
    using handleFix_success [OF a b c, where res = Rejected and uuid = "''u''"]
    by (simp add: d init_def ok_def)
qed

text \<open>
  A successful fix that returns a blank \<^verbatim>\<open>fixedCode\<close>: the only request is the one
  to /api/fix, so no analysis request carries the trimmed \<^verbatim>\<open>fixedCode\<close>.
\<close>

theorem handleFix_blank_fixedCode_counterexample:
  "ok 200
   \<and> \<not> isFixing (init\<lparr>code := ''x=1''\<rparr>)
   \<and> requests (handleFix (Response 200 (Some \<lparr>fixedCode = '' '', changes = [''Removed everything''], source = ''local'', language = ''python''\<rparr>))
         Rejected ''u'' (init\<lparr>code := ''x=1''\<rparr>))
       = [POST ''/api/fix'' ''x=1'' (Some ''auto'')]
   \<and> code (handleFix (Response 200 (Some \<lparr>fixedCode = '' '', changes = [''Removed everything''], source = ''local'', language = ''python''\<rparr>))
         Rejected ''u'' (init\<lparr>code := ''x=1''\<rparr>)) = '' ''
   \<and> toasts (handleFix (Response 200 (Some \<lparr>fixedCode = '' '', changes = [''Removed everything''], source = ''local'', language = ''python''\<rparr>))
         Rejected ''u'' (init\<lparr>code := ''x=1''\<rparr>))
       = [toast_info (Text ''Applying AI fixes...''),
          toast_success (Text ''Fixed with local: Removed everything''),
          toast_error (Text ''Please paste or type some code before analyzing.'')]"
proof -
  have d: "trim '' '' = []" "trim ''x=1'' = ''x=1''"
    by (simp_all add: trim_def isWhiteSpace_def)
  show ?thesis
    by (simp add: handler_defs d init_def ok_def)
qed

section \<open>History\<close>


















section \<open>Fix in progress\<close>

lemma filter_removeAt:
  assumes "i < length xs"
  shows "length (filter P (removeAt i xs)) = length (filter P xs) - (if P (xs ! i) then 1 else 0)"
proof -
  have "xs = take i xs @ xs ! i # drop (Suc i) xs"
    using assms by (rule id_take_nth_drop)
  then have "filter P xs = filter P (take i xs) @ filter P [xs ! i] @ filter P (drop (Suc i) xs)"
    by (metis append_Cons append_Nil filter_append)
  then show ?thesis
    by (simp add: removeAt_def)
qed

lemma filter_nth_pos: "i < length xs \<Longrightarrow> P (xs ! i) \<Longrightarrow> 0 < length (filter P xs)"
  by (metis filter_empty_conv length_greater_0_conv nth_mem)

lemma handleAnalyze_request_isFixing:
  "isFixing (fst (handleAnalyze_request r ov s)) = isFixing s"
  by (simp add: handleAnalyze_request_def toast_def fetch_def Let_def)

lemma handleCodeChange_isFixing: "isFixing (handleCodeChange newCode s) = isFixing s"
  by (simp add: handleCodeChange_def toast_def Let_def)

lemma handleFix_request_cases:
  "handleFix_request r s = (s1, sent) \<Longrightarrow>
     (sent \<longrightarrow> \<not> isFixing r \<and> isFixing s1 \<and> requests s1 \<noteq> requests s)
     \<and> (\<not> sent \<longrightarrow> isFixing s1 = isFixing s \<and> requests s1 = requests s \<and> code s1 = code s)"
  by (auto simp: handleFix_request_def toast_def fetch_def Let_def split: if_splits)

lemma handleFix_response_cases:
  "handleFix_response r res s = (s1, waiting) \<Longrightarrow>
     (waiting \<longrightarrow> isFixing s1 = isFixing s) \<and> (\<not> waiting \<longrightarrow> \<not> isFixing s1)"
  by (auto simp: handleFix_response_def handleFix_finally_def handleAnalyze_request_def
      toast_def fetch_def Let_def split: option.splits if_splits)

lemma step_fix_inv:
  assumes inv: "fix_inv sys"
  shows "fix_inv (step e sys)"
proof (cases e)
  case (Typed x)
  then show ?thesis using inv by (simp add: fix_inv_def handleCodeChange_isFixing)
next
  case (Selected x)
  then show ?thesis using inv by (simp add: fix_inv_def setLanguage_def)
next
  case ClickAnalyze
  then show ?thesis
    using inv handleAnalyze_request_isFixing [of "page sys" None "page sys"]
    by (auto simp: fix_inv_def split: prod.splits bool.splits)
next
  case ClickFix
  obtain s1 sent where r: "handleFix_request (page sys) (page sys) = (s1, sent)"
    by (cases "handleFix_request (page sys) (page sys)")
  show ?thesis
    using inv ClickFix r handleFix_request_cases [OF r]
    by (cases sent) (auto simp: fix_inv_def)
next
  case ClickReset
  then show ?thesis using inv by (simp add: fix_inv_def handleReset_def toast_def)
next
  case (ClickIssue n)
  then show ?thesis using inv by (simp add: fix_inv_def issueClick_def)
next
  case (ClickLoad i)
  then show ?thesis using inv by (auto simp: fix_inv_def loadHistory_def)
next
  case (AnalyzeDone i res uuid)
  show ?thesis
  proof (cases "i < length (pending sys)")
    case False
    then show ?thesis using inv AnalyzeDone by simp
  next
    case True
    show ?thesis
    proof (cases "pending sys ! i")
      case (AwaitFix r)
      then show ?thesis using inv AnalyzeDone True by simp
    next
      case (AwaitAnalyze r inFix)
      have fr: "isFixing (handleAnalyze_response r res uuid (page sys)) = isFixing (page sys)"
        using handleAnalyze_response_frame by simp
      show ?thesis
      proof (cases inFix)
        case True
        have "0 < length (filter fixing (pending sys))"
          using \<open>i < length (pending sys)\<close> AwaitAnalyze True filter_nth_pos [of i "pending sys" fixing]
          by simp
        with inv have "length (filter fixing (pending sys)) = 1"
          by (simp add: fix_inv_def split: if_splits)
        then show ?thesis
          using AnalyzeDone \<open>i < length (pending sys)\<close> AwaitAnalyze True
          by (simp add: fix_inv_def filter_removeAt handleFix_finally_def Let_def)
      next
        case False
        then show ?thesis
          using inv AnalyzeDone \<open>i < length (pending sys)\<close> AwaitAnalyze fr
          by (simp add: fix_inv_def filter_removeAt Let_def)
      qed
    qed
  qed
next
  case (FixDone i res)
  show ?thesis
  proof (cases "i < length (pending sys)")
    case False
    then show ?thesis using inv FixDone by simp
  next
    case True
    show ?thesis
    proof (cases "pending sys ! i")
      case (AwaitAnalyze r inFix)
      then show ?thesis using inv FixDone True by simp
    next
      case (AwaitFix r)
      obtain s1 waiting where w: "handleFix_response r res (page sys) = (s1, waiting)"
        by (cases "handleFix_response r res (page sys)")
      have "0 < length (filter fixing (pending sys))"
        using True AwaitFix filter_nth_pos [of i "pending sys" fixing] by simp
      with inv have one: "length (filter fixing (pending sys)) = 1" and f: "isFixing (page sys)"
        by (simp_all add: fix_inv_def split: if_splits)
      have zero: "length (filter fixing (removeAt i (pending sys))) = 0"
        using one True AwaitFix by (simp add: filter_removeAt)
      show ?thesis
        using FixDone True AwaitFix w handleFix_response_cases [OF w] f zero
        by (cases waiting) (simp_all add: fix_inv_def)
    qed
  qed
qed

lemma reachable_fix_inv: "reachable sys \<Longrightarrow> fix_inv sys"
proof (induction rule: reachable.induct)
  case reachable_start
  then show ?case by (simp add: fix_inv_def start_def init_def)
next
  case (reachable_step sys e)
  from reachable_step.IH show ?case by (rule step_fix_inv)
qed

lemma ClickFix_sends:
  assumes "fix_inv sys" and "requests (page (step ClickFix sys)) \<noteq> requests (page sys)"
  shows "filter fixing (pending sys) = []"
proof -
  obtain s1 sent where r: "handleFix_request (page sys) (page sys) = (s1, sent)"
    by (cases "handleFix_request (page sys) (page sys)")
  have "sent"
    using assms(2) r handleFix_request_cases [OF r] by (cases sent) simp_all
  then have "\<not> isFixing (page sys)"
    using handleFix_request_cases [OF r] by simp
  with assms(1) show ?thesis
    by (simp add: fix_inv_def)
qed

text \<open>
  C9. While \<^verbatim>\<open>isFixing\<close> is true a call of \<^verbatim>\<open>handleFix\<close> shows
  "Fix already in progress..." and does nothing else: no request is sent and the code is
  unchanged. A call with no fix in progress and code that is not blank sets
  \<^verbatim>\<open>isFixing\<close> before its request, and \<^verbatim>\<open>isFixing\<close> is false when the call
  has finished, whatever the responses. With other events in between: in every state the
  page can reach, \<^verbatim>\<open>isFixing\<close> is set exactly when one \<^verbatim>\<open>handleFix\<close> is
  suspended, and never more than one is; so when a click on the fix button sends a request,
  no \<^verbatim>\<open>handleFix\<close> was suspended.
\<close>

theorem fix_in_progress:
  "(isFixing s \<longrightarrow>
      handleFix fixRes res uuid s = s\<lparr>toasts := toasts s @ [toast_info (Text ''Fix already in progress...'')]\<rparr>
      \<and> requests (handleFix fixRes res uuid s) = requests s
      \<and> code (handleFix fixRes res uuid s) = code s)
   \<and> (\<not> isFixing s \<and> trim (code s) \<noteq> [] \<longrightarrow>
        isFixing (fst (handleFix_request s s)) \<and> \<not> isFixing (handleFix fixRes res uuid s))
   \<and> (reachable sys \<longrightarrow>
        length (filter fixing (pending sys)) = (if isFixing (page sys) then 1 else 0))
   \<and> (reachable sys \<and> requests (page (step ClickFix sys)) \<noteq> requests (page sys) \<longrightarrow>
        filter fixing (pending sys) = [])"
proof -
  have 1: "handleFix fixRes res uuid s = s\<lparr>toasts := toasts s @ [toast_info (Text ''Fix already in progress...'')]\<rparr>"
    if "isFixing s"
    using that by (simp add: handleFix_def handleFix_request_def toast_def)
  have 2: "isFixing (fst (handleFix_request s s)) \<and> \<not> isFixing (handleFix fixRes res uuid s)"
    if "\<not> isFixing s" "trim (code s) \<noteq> []"
    using that by (simp add: handler_defs split: option.splits parsed.splits)
  have 3: "length (filter fixing (pending sys)) = (if isFixing (page sys) then 1 else 0)"
    if "reachable sys"
    using reachable_fix_inv [OF that] by (simp add: fix_inv_def)
  have 4: "filter fixing (pending sys) = []"
    if "reachable sys" "requests (page (step ClickFix sys)) \<noteq> requests (page sys)"
    using ClickFix_sends [OF reachable_fix_inv [OF that(1)] that(2)] .
  show ?thesis
    using 1 2 3 4 by simp
qed

text \<open>
  "x=1" is typed into the initial page and the fix button is clicked twice: the first click
  sends the request, the second finds \<^verbatim>\<open>isFixing\<close> set and sends nothing.
\<close>

theorem fix_in_progress_witness:
  "reachable typedPage \<and> reachable fixingPage
   \<and> \<not> isFixing (page typedPage) \<and> trim (code (page typedPage)) \<noteq> []
   \<and> requests (page typedPage) = []
   \<and> requests (page fixingPage) = [POST ''/api/fix'' ''x=1'' (Some ''auto'')]
   \<and> filter fixing (pending typedPage) = []
   \<and> isFixing (page fixingPage)
   \<and> length (filter fixing (pending fixingPage)) = 1
   \<and> requests (page (step ClickFix fixingPage)) = requests (page fixingPage)
   \<and> code (handleFix Rejected Rejected ''u'' (page fixingPage)) = code (page fixingPage)
   \<and> \<not> isFixing (handleFix Rejected Rejected ''u'' (page typedPage))"
proof -
  have t: "trim ''x=1'' = ''x=1''"
    by (simp add: trim_def isWhiteSpace_def)
  have l: "toLowerCase ''x=1'' = ''x=1''"
    by (simp add: toLowerCase_def isUpper_def)
  have d: "detect ''x=1'' = []"
    by (simp add: detect_def)
  have p1: "page typedPage = init\<lparr>code := ''x=1''\<rparr>" and q1: "pending typedPage = []"
    by (simp_all add: typedPage_def start_def handleCodeChange_def init_def t l d)
  have r1: "reachable typedPage"
    unfolding typedPage_def by (intro reachable.intros)
  have r2: "reachable fixingPage"
    unfolding fixingPage_def typedPage_def by (intro reachable.intros)
  have f1: "\<not> isFixing (page typedPage)" and c1: "trim (code (page typedPage)) \<noteq> []"
    and e1: "requests (page typedPage) = []"
    by (simp_all add: p1 init_def t)
  have p2: "page fixingPage =
        init\<lparr>code := ''x=1'', isFixing := True,
             toasts := [toast_info (Text ''Applying AI fixes...'')],
             requests := [POST ''/api/fix'' ''x=1'' (Some ''auto'')]\<rparr>"
    and q2: "pending fixingPage = [AwaitFix (init\<lparr>code := ''x=1''\<rparr>)]"
    by (simp_all add: fixingPage_def p1 q1 handleFix_request_def toast_def fetch_def init_def t Let_def)
  have f2: "isFixing (page fixingPage)"
    and e2: "requests (page fixingPage) = [POST ''/api/fix'' ''x=1'' (Some ''auto'')]"
    by (simp_all add: p2)
  have n: "requests (page fixingPage) \<noteq> requests (page typedPage)"
    by (simp add: e1 e2)
  have s2: "requests (page (step ClickFix fixingPage)) = requests (page fixingPage)"
    by (simp add: p2 handleFix_request_def toast_def)
  show ?thesis
    using fix_in_progress [where s = "page fixingPage" and sys = fixingPage
        and fixRes = Rejected and res = Rejected and uuid = "''u''"]
      fix_in_progress [where s = "page typedPage" and sys = typedPage
        and fixRes = Rejected and res = Rejected and uuid = "''u''"]
      r1 r2 f1 c1 e1 e2 f2 s2 n [unfolded fixingPage_def]
    by (simp add: fixingPage_def [symmetric])
qed

end
